theory Spec2Isabelle
  imports Main "HOL-Library.Word"
begin

section \<open>The setuid-sploit test fixture\<close>

text \<open>
  The program under verification is \<^verbatim>\<open>src/integration/rootfs/setuid-sploit.c\<close>:
  \<^verbatim>\<open>
  int main(int argc, char *argv[]) {
          if (setuid(0) < 0) {
                  perror("setuid");
                  abort();
          }

          if (execv(argv[1], &argv[1]) < 0) {
                  perror("execl");
                  abort();
          }

          return 0;
  }
  \<close>
  It is embedded as a function from the argument vector and the replies of the
  operating system to the final process state and the way the process ended. The process
  state records \<open>errno\<close> and, in order, every request the program makes of the kernel
  and every write to a file descriptor.
\<close>

subsection \<open>Values and the outside world\<close>

type_synonym uid_t = "32 word"

type_synonym errno_t = int

text \<open>A \<^verbatim>\<open>char *\<close>: the null pointer or a string.\<close>

datatype cstr = Null | Str string

text \<open>
  The kernel's answer to the two requests. By their interface, \<^verbatim>\<open>setuid\<close> returns 0,
  or -1 with \<open>errno\<close> set; \<^verbatim>\<open>execve\<close> does not return when the image has been replaced
  and otherwise returns -1 with \<open>errno\<close> set.
\<close>

datatype setuid_reply = Setuid_ok | Setuid_failed errno_t

datatype exec_reply = Image_replaced | Exec_failed errno_t

text \<open>
  The world outside the program is a parameter: how the kernel answers a request to change
  the user identity, how it answers a request to execute a file with an argument vector,
  and the C library's table of error descriptions.
\<close>

record world =
  kernel_setuid :: "uid_t \<Rightarrow> setuid_reply"
  kernel_execve :: "string \<Rightarrow> string list \<Rightarrow> exec_reply"
  strerror :: "errno_t \<Rightarrow> string"

datatype event =
    Req_setuid uid_t
  | Req_execve cstr "string list"
  | Write nat string

record proc =
  errno :: errno_t
  events :: "event list"

text \<open>
  How a run ends: by \<^verbatim>\<open>abort\<close>, by the replacement of the process image, by \<^verbatim>\<open>main\<close>
  returning a value, or in behaviour that C leaves undefined.
\<close>

datatype outcome = Aborted | Replaced | Returned int | Undefined

definition proc0 :: proc where
  "proc0 = \<lparr>errno = 0, events = []\<rparr>"

definition stderr_fd :: nat where
  "stderr_fd = 2"

definition newline :: string where
  "newline = [CHR 0x0A]"

definition EFAULT :: errno_t where
  "EFAULT = 14"

subsection \<open>The library functions the program calls\<close>

text \<open>\<^verbatim>\<open>int setuid(uid_t uid)\<close>: one request to the kernel; -1 and \<open>errno\<close> on failure.\<close>

definition setuid :: "world \<Rightarrow> uid_t \<Rightarrow> proc \<Rightarrow> int \<times> proc" where
  "setuid w uid p =
     (let p' = p\<lparr>events := events p @ [Req_setuid uid]\<rparr>
      in case kernel_setuid w uid of
           Setuid_ok \<Rightarrow> (0, p')
         | Setuid_failed e \<Rightarrow> (- 1, p'\<lparr>errno := e\<rparr>))"

text \<open>
  The system call behind \<^verbatim>\<open>execv\<close>. The kernel copies the path from the address it is
  given and refuses the null pointer with \<open>EFAULT\<close>; for a string it decides as the
  world says.
\<close>

definition sys_execve :: "world \<Rightarrow> cstr \<Rightarrow> string list \<Rightarrow> exec_reply" where
  "sys_execve w path args =
     (case path of
        Null \<Rightarrow> Exec_failed EFAULT
      | Str f \<Rightarrow> kernel_execve w f args)"

text \<open>
  \<^verbatim>\<open>int execv(const char *path, char *const argv[])\<close>: one request to the kernel. The
  result is \<open>None\<close> when the call does not return (the image was replaced) and the
  returned value otherwise: -1, with \<open>errno\<close> set.
\<close>

definition execv :: "world \<Rightarrow> cstr \<Rightarrow> string list \<Rightarrow> proc \<Rightarrow> int option \<times> proc" where
  "execv w path args p =
     (let p' = p\<lparr>events := events p @ [Req_execve path args]\<rparr>
      in case sys_execve w path args of
           Image_replaced \<Rightarrow> (None, p')
         | Exec_failed e \<Rightarrow> (Some (- 1), p'\<lparr>errno := e\<rparr>))"

text \<open>
  \<^verbatim>\<open>void perror(const char *s)\<close>: writes to standard error the string \<open>s\<close>, a colon and
  a blank (when \<open>s\<close> is not empty), the description of the current \<open>errno\<close>, and a
  newline.
\<close>

definition perror :: "world \<Rightarrow> string \<Rightarrow> proc \<Rightarrow> proc" where
  "perror w s p =
     p\<lparr>events := events p @
        [Write stderr_fd ((if s = [] then [] else s @ '': '') @ strerror w (errno p) @ newline)]\<rparr>"

text \<open>\<^verbatim>\<open>void abort(void)\<close>: the process ends abnormally.\<close>

definition abort :: "proc \<Rightarrow> proc \<times> outcome" where
  "abort p = (p, Aborted)"

subsection \<open>The argument vector\<close>

text \<open>
  \<open>argv\<close> is given as the list of its \<open>argc\<close> strings. The array in memory has
  \<open>argc + 1\<close> elements, the last one the null pointer; an index beyond that is outside
  the array (\<open>None\<close>).
\<close>

definition argv_index :: "string list \<Rightarrow> nat \<Rightarrow> cstr option" where
  "argv_index argv i =
     (if i < length argv then Some (Str (argv ! i))
      else if i = length argv then Some Null
      else None)"

text \<open>
  \<^verbatim>\<open>&argv[i]\<close> read as an argument vector: the strings from index \<open>i\<close> up to the
  terminating null pointer.
\<close>

definition argv_from :: "string list \<Rightarrow> nat \<Rightarrow> string list" where
  "argv_from argv i = drop i argv"

subsection \<open>The program\<close>

definition main :: "world \<Rightarrow> string list \<Rightarrow> proc \<times> outcome" where
  "main w argv =
     (case setuid w 0 proc0 of (r1, p1) \<Rightarrow>
        if r1 < 0 then abort (perror w ''setuid'' p1)
        else
          (case argv_index argv 1 of
             None \<Rightarrow> (p1, Undefined)
           | Some path \<Rightarrow>
               (case execv w path (argv_from argv 1) p1 of
                  (None, p2) \<Rightarrow> (p2, Replaced)
                | (Some r2, p2) \<Rightarrow>
                    if r2 < 0 then abort (perror w ''execl'' p2)
                    else (p2, Returned 0))))"

subsection \<open>Observations on a run\<close>

fun is_setuid :: "event \<Rightarrow> bool" where
  "is_setuid (Req_setuid u) = True"
| "is_setuid e = False"

fun is_execve :: "event \<Rightarrow> bool" where
  "is_execve (Req_execve path args) = True"
| "is_execve e = False"

fun is_write :: "event \<Rightarrow> bool" where
  "is_write (Write fd s) = True"
| "is_write e = False"

definition is_request :: "event \<Rightarrow> bool" where
  "is_request e \<longleftrightarrow> is_setuid e \<or> is_execve e"

text \<open>
  Everything a run did, in order, and of that the requests for an identity change and for
  the replacement of the process image.
\<close>

definition trace :: "proc \<times> outcome \<Rightarrow> event list" where
  "trace r = events (fst r)"

definition requests :: "proc \<times> outcome \<Rightarrow> event list" where
  "requests r = filter is_request (trace r)"

text \<open>
  A run stopped at the privilege transition when it ended by \<open>abort\<close> without having
  asked for the replacement of the process image.
\<close>

definition stopped_at_transition :: "proc \<times> outcome \<Rightarrow> bool" where
  "stopped_at_transition r \<longleftrightarrow> snd r = Aborted \<and> filter is_execve (trace r) = []"

text \<open>The text written to standard error during a run.\<close>

fun stderr_text :: "event list \<Rightarrow> string" where
  "stderr_text [] = []"
| "stderr_text (Write fd s # es) = (if fd = stderr_fd then s @ stderr_text es else stderr_text es)"
| "stderr_text (e # es) = stderr_text es"

subsection \<open>Two concrete worlds and an invocation\<close>

definition strerror_linux :: "errno_t \<Rightarrow> string" where
  "strerror_linux e =
     (if e = 1 then ''Operation not permitted''
      else if e = 2 then ''No such file or directory''
      else if e = 13 then ''Permission denied''
      else if e = 14 then ''Bad address''
      else ''Unknown error'')"

text \<open>A sandbox that refuses every identity change with \<open>EPERM\<close>.\<close>

definition sandboxed :: world where
  "sandboxed =
     \<lparr>kernel_setuid = (\<lambda>u. Setuid_failed 1),
      kernel_execve = (\<lambda>f args. Image_replaced),
      strerror = strerror_linux\<rparr>"

text \<open>
  A system that grants the identity change and on which \<^verbatim>\<open>/bin/echo\<close> is the only
  executable file.
\<close>

definition provisioned :: world where
  "provisioned =
     \<lparr>kernel_setuid = (\<lambda>u. Setuid_ok),
      kernel_execve = (\<lambda>f args. if f = ''/bin/echo'' then Image_replaced else Exec_failed 2),
      strerror = strerror_linux\<rparr>"

definition demo_argv :: "string list" where
  "demo_argv = [''setuid-sploit'', ''/bin/echo'', ''hello'']"

definition bare_argv :: "string list" where
  "bare_argv = [''setuid-sploit'']"

definition missing_argv :: "string list" where
  "missing_argv = [''setuid-sploit'', ''/bin/missing'']"

section \<open>Properties\<close>

subsection \<open>The runs of the program, path by path\<close>

text \<open>
  The program has four paths. Each lemma gives the complete final state and outcome of
  one of them; the properties below are read off these.
\<close>

lemma main_setuid_failed:
  "kernel_setuid w 0 = Setuid_failed e \<Longrightarrow>
   main w argv =
     (\<lparr>errno = e,
       events = [Req_setuid 0, Write stderr_fd (''setuid: '' @ strerror w e @ newline)]\<rparr>,
      Aborted)"
  by (simp add: main_def setuid_def perror_def abort_def proc0_def)

lemma main_argc_zero:
  "kernel_setuid w 0 = Setuid_ok \<Longrightarrow>
   main w [] = (\<lparr>errno = 0, events = [Req_setuid 0]\<rparr>, Undefined)"
  by (simp add: main_def setuid_def argv_index_def proc0_def)

lemma main_exec_failed:
  "kernel_setuid w 0 = Setuid_ok \<Longrightarrow>
   argv_index argv 1 = Some path \<Longrightarrow>
   sys_execve w path (argv_from argv 1) = Exec_failed e \<Longrightarrow>
   main w argv =
     (\<lparr>errno = e,
       events = [Req_setuid 0, Req_execve path (argv_from argv 1),
                 Write stderr_fd (''execl: '' @ strerror w e @ newline)]\<rparr>,
      Aborted)"
  by (simp add: main_def setuid_def execv_def perror_def abort_def proc0_def)

lemma main_replaced:
  "kernel_setuid w 0 = Setuid_ok \<Longrightarrow>
   argv_index argv 1 = Some path \<Longrightarrow>
   sys_execve w path (argv_from argv 1) = Image_replaced \<Longrightarrow>
   main w argv =
     (\<lparr>errno = 0, events = [Req_setuid 0, Req_execve path (argv_from argv 1)]\<rparr>,
      Replaced)"
  by (simp add: main_def setuid_def execv_def proc0_def)

text \<open>
  Of the kernel's handling of identity changes, the library functions consult only the
  reply to the request they make.
\<close>

lemma setuid_other_uids:
  "k uid = kernel_setuid w uid \<Longrightarrow> setuid (w\<lparr>kernel_setuid := k\<rparr>) uid = setuid w uid"
  by (simp add: setuid_def fun_eq_iff)

lemma sys_execve_other_setuid:
  "sys_execve (w\<lparr>kernel_setuid := k\<rparr>) = sys_execve w"
  by (simp add: sys_execve_def fun_eq_iff split: cstr.splits)

lemma execv_other_setuid:
  "execv (w\<lparr>kernel_setuid := k\<rparr>) = execv w"
  by (simp add: execv_def sys_execve_other_setuid fun_eq_iff)

lemma perror_other_setuid:
  "perror (w\<lparr>kernel_setuid := k\<rparr>) = perror w"
  by (simp add: perror_def fun_eq_iff)

text \<open>Only the empty argument vector has no element 1.\<close>

lemma argv_index_1:
  "argv \<noteq> [] \<Longrightarrow> \<exists>path. argv_index argv 1 = Some path"
  by (cases argv) (simp_all add: argv_index_def)

lemma argv_index_1_two:
  "2 \<le> length argv \<Longrightarrow> argv_index argv 1 = Some (Str (argv ! 1))"
  by (simp add: argv_index_def)

lemma two_or_more:
  "2 \<le> length argv \<Longrightarrow> \<exists>name path rest. argv = name # path # rest"
  by (cases argv; cases "tl argv"; simp)

lemma argv_index_1_single:
  "argv_index [name] 1 = Some Null"
  by (simp add: argv_index_def)

text \<open>The four paths are all there are.\<close>

lemma main_cases:
  obtains
    (setuid_failed) e where "kernel_setuid w 0 = Setuid_failed e"
  | (argc_zero) "kernel_setuid w 0 = Setuid_ok" "argv = []"
  | (exec_failed) path e where "kernel_setuid w 0 = Setuid_ok" "argv_index argv 1 = Some path"
      "sys_execve w path (argv_from argv 1) = Exec_failed e"
  | (replaced) path where "kernel_setuid w 0 = Setuid_ok" "argv_index argv 1 = Some path"
      "sys_execve w path (argv_from argv 1) = Image_replaced"
proof (cases "kernel_setuid w 0")
  case (Setuid_failed e)
  then show ?thesis by (rule setuid_failed)
next
  case Setuid_ok
  show ?thesis
  proof (cases "argv = []")
    case True
    with Setuid_ok show ?thesis by (rule argc_zero)
  next
    case False
    then obtain path where p: "argv_index argv 1 = Some path"
      using argv_index_1 by blast
    show ?thesis
    proof (cases "sys_execve w path (argv_from argv 1)")
      case Image_replaced
      with Setuid_ok p show ?thesis by (rule replaced)
    next
      case (Exec_failed e)
      with Setuid_ok p show ?thesis by (rule exec_failed)
    qed
  qed
qed

text \<open>Every run begins with its only request for an identity change.\<close>

lemma setuid_requested_once:
  "filter is_setuid (trace (main w argv)) = [Req_setuid 0] \<and>
   hd (trace (main w argv)) = Req_setuid 0"
proof (cases rule: main_cases [where w = w and argv = argv])
  case (setuid_failed e)
  from main_setuid_failed [OF this, of argv] show ?thesis
    by (simp add: trace_def)
next
  case argc_zero
  from main_argc_zero [OF argc_zero(1)] argc_zero(2) show ?thesis
    by (simp add: trace_def)
next
  case (exec_failed path e)
  from main_exec_failed [OF this] show ?thesis
    by (simp add: trace_def)
next
  case (replaced path)
  from main_replaced [OF this] show ?thesis
    by (simp add: trace_def)
qed

text \<open>
  A run stopped at the privilege transition exactly when the identity change was refused.
\<close>

lemma stopped_at_transition_iff:
  "stopped_at_transition (main w argv) \<longleftrightarrow> kernel_setuid w 0 \<noteq> Setuid_ok"
proof (cases rule: main_cases [where w = w and argv = argv])
  case (setuid_failed e)
  from main_setuid_failed [OF this, of argv] setuid_failed show ?thesis
    by (simp add: stopped_at_transition_def trace_def)
next
  case argc_zero
  from main_argc_zero [OF argc_zero(1)] argc_zero show ?thesis
    by (simp add: stopped_at_transition_def trace_def)
next
  case (exec_failed path e)
  from main_exec_failed [OF this] exec_failed(1) show ?thesis
    by (simp add: stopped_at_transition_def trace_def)
next
  case (replaced path)
  from main_replaced [OF this] replaced(1) show ?thesis
    by (simp add: stopped_at_transition_def trace_def)
qed

text \<open>
  Two worlds that give the same replies to the requests of a run, and the same
  descriptions of errors, give the same run.
\<close>

lemma main_same_replies:
  assumes su: "kernel_setuid w' 0 = kernel_setuid w 0"
    and ex: "\<And>path. argv_index argv 1 = Some path \<Longrightarrow>
          sys_execve w' path (argv_from argv 1) = sys_execve w path (argv_from argv 1)"
    and se: "strerror w' = strerror w"
  shows "main w' argv = main w argv"
proof (cases rule: main_cases [where w = w and argv = argv])
  case (setuid_failed e)
  with su have "kernel_setuid w' 0 = Setuid_failed e"
    by simp
  from main_setuid_failed [OF this, of argv] main_setuid_failed [OF setuid_failed, of argv] se
  show ?thesis
    by simp
next
  case argc_zero
  with su have "kernel_setuid w' 0 = Setuid_ok"
    by simp
  from main_argc_zero [OF this] main_argc_zero [OF argc_zero(1)] argc_zero(2)
  show ?thesis
    by simp
next
  case (exec_failed path e)
  from exec_failed su have s': "kernel_setuid w' 0 = Setuid_ok"
    by simp
  from exec_failed ex have "sys_execve w' path (argv_from argv 1) = Exec_failed e"
    by simp
  from main_exec_failed [OF s' exec_failed(2) this] main_exec_failed [OF exec_failed] se
  show ?thesis
    by simp
next
  case (replaced path)
  from replaced su have s': "kernel_setuid w' 0 = Setuid_ok"
    by simp
  from replaced ex have "sys_execve w' path (argv_from argv 1) = Image_replaced"
    by simp
  from main_replaced [OF s' replaced(2) this] main_replaced [OF replaced]
  show ?thesis
    by simp
qed

subsection \<open>Failure of the privilege transition\<close>

text \<open>
  Claim C1. Whenever the request to set the user identity to the superuser fails, with
  any error \<open>e\<close> and for any argument vector, the run consists of that request followed
  by one write to standard error of \<open>setuid: \<close>, the system's description of \<open>e\<close>
  and a newline; it then ends by \<open>abort\<close>. No request to replace the process image is
  made.
\<close>

theorem setuid_failure_reports_and_aborts:
  assumes "kernel_setuid w 0 = Setuid_failed e"
  shows "snd (main w argv) = Aborted \<and>
         trace (main w argv) =
           [Req_setuid 0, Write stderr_fd (''setuid: '' @ strerror w e @ newline)] \<and>
         stderr_text (trace (main w argv)) = ''setuid: '' @ strerror w e @ newline \<and>
         filter is_execve (trace (main w argv)) = []"
  using main_setuid_failed [OF assms, of argv] by (simp add: trace_def)

theorem setuid_failure_reports_and_aborts_witness:
  "kernel_setuid sandboxed 0 = Setuid_failed 1 \<and>
   snd (main sandboxed demo_argv) = Aborted \<and>
   stderr_text (trace (main sandboxed demo_argv)) = ''setuid: Operation not permitted'' @ newline \<and>
   filter is_execve (trace (main sandboxed demo_argv)) = []"
proof -
  have h: "kernel_setuid sandboxed 0 = Setuid_failed 1"
    by (simp add: sandboxed_def)
  have s: "strerror sandboxed 1 = ''Operation not permitted''"
    by (simp add: sandboxed_def strerror_linux_def)
  from setuid_failure_reports_and_aborts [OF h, of demo_argv] h s show ?thesis
    by simp
qed

subsection \<open>The replacement request\<close>

text \<open>
  Claim C2. When the privilege transition succeeds and the argument vector has at least
  two elements, the run makes exactly one request to replace the process image: its path
  is \<open>argv[1]\<close> and its argument vector is \<open>argv\<close> without its first element, that
  is \<open>argv[1]\<close> followed by \<open>argv[2..]\<close> in order, so that element 0 of the new
  vector is the path itself and nothing is inserted, dropped or reordered.
\<close>

theorem exec_request_forwards_arguments:
  assumes "kernel_setuid w 0 = Setuid_ok" and "2 \<le> length argv"
  shows "filter is_execve (trace (main w argv)) = [Req_execve (Str (argv ! 1)) (drop 1 argv)] \<and>
         drop 1 argv = argv ! 1 # drop 2 argv \<and>
         hd (drop 1 argv) = argv ! 1 \<and>
         length (drop 1 argv) = length argv - 1 \<and>
         (\<forall>i < length argv - 1. drop 1 argv ! i = argv ! (i + 1))"
proof -
  from assms(2) have path: "argv_index argv 1 = Some (Str (argv ! 1))"
    by (rule argv_index_1_two)
  have req: "filter is_execve (trace (main w argv)) = [Req_execve (Str (argv ! 1)) (drop 1 argv)]"
  proof (cases "sys_execve w (Str (argv ! 1)) (argv_from argv 1)")
    case Image_replaced
    from main_replaced [OF assms(1) path this] show ?thesis
      by (simp add: trace_def argv_from_def)
  next
    case (Exec_failed e)
    from main_exec_failed [OF assms(1) path this] show ?thesis
      by (simp add: trace_def argv_from_def)
  qed
  from assms(2) obtain name p rest where "argv = name # p # rest"
    using two_or_more by blast
  then have fwd: "drop 1 argv = argv ! 1 # drop 2 argv" and first: "hd (drop 1 argv) = argv ! 1"
    by simp_all
  have len: "length (drop 1 argv) = length argv - 1"
    by simp
  have nth: "\<forall>i < length argv - 1. drop 1 argv ! i = argv ! (i + 1)"
    using assms(2) by simp
  from req fwd first len nth show ?thesis
    by blast
qed

theorem exec_request_forwards_arguments_witness:
  "kernel_setuid provisioned 0 = Setuid_ok \<and> 2 \<le> length demo_argv \<and>
   filter is_execve (trace (main provisioned demo_argv)) =
     [Req_execve (Str ''/bin/echo'') [''/bin/echo'', ''hello'']]"
proof -
  have h: "kernel_setuid provisioned 0 = Setuid_ok"
    by (simp add: provisioned_def)
  have l: "2 \<le> length demo_argv"
    by (simp add: demo_argv_def)
  from exec_request_forwards_arguments [OF h l] h l show ?thesis
    by (simp add: demo_argv_def)
qed

subsection \<open>Failure of the replacement\<close>

text \<open>
  Claim C3. When the privilege transition succeeds and the request to replace the process
  image is refused with an error \<open>e\<close>, the run consists of the two requests, each made
  once, followed by one write to standard error of \<open>execl: \<close>, the system's description
  of \<open>e\<close> and a newline; it then ends by \<open>abort\<close>. The run does not go on, and does
  not return from \<open>main\<close>.
\<close>

theorem exec_failure_reports_and_aborts:
  assumes "kernel_setuid w 0 = Setuid_ok"
    and "argv_index argv 1 = Some path"
    and "sys_execve w path (argv_from argv 1) = Exec_failed e"
  shows "snd (main w argv) = Aborted \<and>
         trace (main w argv) =
           [Req_setuid 0, Req_execve path (argv_from argv 1),
            Write stderr_fd (''execl: '' @ strerror w e @ newline)] \<and>
         stderr_text (trace (main w argv)) = ''execl: '' @ strerror w e @ newline \<and>
         requests (main w argv) = [Req_setuid 0, Req_execve path (argv_from argv 1)]"
  using main_exec_failed [OF assms]
  by (simp add: trace_def requests_def is_request_def)

theorem exec_failure_reports_and_aborts_witness:
  "kernel_setuid provisioned 0 = Setuid_ok \<and>
   argv_index missing_argv 1 = Some (Str ''/bin/missing'') \<and>
   sys_execve provisioned (Str ''/bin/missing'') (argv_from missing_argv 1) = Exec_failed 2 \<and>
   snd (main provisioned missing_argv) = Aborted \<and>
   stderr_text (trace (main provisioned missing_argv)) =
     ''execl: No such file or directory'' @ newline"
proof -
  have h: "kernel_setuid provisioned 0 = Setuid_ok"
    by (simp add: provisioned_def)
  have p: "argv_index missing_argv 1 = Some (Str ''/bin/missing'')"
    by (simp add: argv_index_def missing_argv_def)
  have x: "sys_execve provisioned (Str ''/bin/missing'') (argv_from missing_argv 1) = Exec_failed 2"
    by (simp add: sys_execve_def provisioned_def)
  have s: "strerror provisioned 2 = ''No such file or directory''"
    by (simp add: provisioned_def strerror_linux_def)
  from exec_failure_reports_and_aborts [OF h p x] h p x s show ?thesis
    by simp
qed

subsection \<open>How a run ends\<close>

text \<open>
  Claim C4. No run ends with \<open>main\<close> returning, with zero or any other value: the
  \<open>return 0\<close> of the source is never reached. A run on an argument vector that holds
  at least the program's own name ends by \<open>abort\<close> or in the replacement of the process
  image, and it ends in the replacement only when the identity change was granted and the
  kernel accepted the request to execute \<open>argv[1]\<close>. (With \<open>argc = 0\<close> and the
  identity change granted, the program reads \<open>argv[1]\<close> outside the array.)
\<close>

theorem main_never_returns:
  "(\<forall>v. snd (main w argv) \<noteq> Returned v) \<and>
   (argv \<noteq> [] \<longrightarrow> snd (main w argv) = Aborted \<or> snd (main w argv) = Replaced) \<and>
   (snd (main w argv) = Replaced \<longrightarrow>
      kernel_setuid w 0 = Setuid_ok \<and>
      (\<exists>path. argv_index argv 1 = Some path \<and>
         sys_execve w path (argv_from argv 1) = Image_replaced))"
proof (cases rule: main_cases [where w = w and argv = argv])
  case (setuid_failed e)
  from main_setuid_failed [OF this, of argv] show ?thesis
    by simp
next
  case argc_zero
  from main_argc_zero [OF argc_zero(1)] argc_zero(2) show ?thesis
    by simp
next
  case (exec_failed path e)
  from main_exec_failed [OF this] show ?thesis
    by simp
next
  case (replaced path)
  from main_replaced [OF this] replaced show ?thesis
    by simp
qed

theorem main_never_returns_witness:
  "snd (main provisioned demo_argv) \<noteq> Returned 0 \<and>
   demo_argv \<noteq> [] \<and>
   snd (main provisioned demo_argv) = Replaced \<and>
   kernel_setuid provisioned 0 = Setuid_ok \<and>
   snd (main provisioned missing_argv) = Aborted \<and>
   snd (main sandboxed demo_argv) = Aborted"
proof -
  have r: "snd (main provisioned demo_argv) = Replaced"
    by (simp add: main_def setuid_def execv_def sys_execve_def argv_index_def argv_from_def
        provisioned_def demo_argv_def proc0_def)
  have m: "snd (main provisioned missing_argv) \<noteq> Replaced"
    by (simp add: main_def setuid_def execv_def sys_execve_def argv_index_def argv_from_def
        perror_def abort_def provisioned_def missing_argv_def proc0_def)
  have s: "snd (main sandboxed demo_argv) \<noteq> Replaced"
    by (simp add: main_def setuid_def perror_def abort_def sandboxed_def proc0_def)
  have ne: "demo_argv \<noteq> []" "missing_argv \<noteq> []"
    by (simp_all add: demo_argv_def missing_argv_def)
  from main_never_returns [of provisioned demo_argv]
    main_never_returns [of provisioned missing_argv]
    main_never_returns [of sandboxed demo_argv] r m s ne
  show ?thesis
    by simp
qed

subsection \<open>The identity requested\<close>

text \<open>
  Claim C5. Every run asks the kernel exactly once to change the user identity, as the
  first thing it does, and the identity asked for is 0. Of the kernel's handling of
  identity changes the run depends on nothing but the reply to that one request: a
  kernel that answers any other identifier differently gives the same run.
\<close>

theorem setuid_request_is_for_root:
  "filter is_setuid (trace (main w argv)) = [Req_setuid 0] \<and>
   hd (trace (main w argv)) = Req_setuid 0 \<and>
   (k 0 = kernel_setuid w 0 \<longrightarrow> main (w\<lparr>kernel_setuid := k\<rparr>) argv = main w argv)"
proof -
  have once: "filter is_setuid (trace (main w argv)) = [Req_setuid 0] \<and>
      hd (trace (main w argv)) = Req_setuid 0"
    by (rule setuid_requested_once)
  have same: "k 0 = kernel_setuid w 0 \<longrightarrow> main (w\<lparr>kernel_setuid := k\<rparr>) argv = main w argv"
  proof
    assume "k 0 = kernel_setuid w 0"
    then have "setuid (w\<lparr>kernel_setuid := k\<rparr>) 0 = setuid w 0"
      by (rule setuid_other_uids)
    then show "main (w\<lparr>kernel_setuid := k\<rparr>) argv = main w argv"
      unfolding main_def execv_other_setuid perror_other_setuid by simp
  qed
  from once same show ?thesis
    by blast
qed

theorem setuid_request_is_for_root_witness:
  "filter is_setuid (trace (main provisioned demo_argv)) = [Req_setuid 0] \<and>
   hd (trace (main provisioned demo_argv)) = Req_setuid 0 \<and>
   (\<lambda>u. if u = 0 then Setuid_ok else Setuid_failed 1) 0 = kernel_setuid provisioned 0 \<and>
   main (provisioned\<lparr>kernel_setuid := (\<lambda>u. if u = 0 then Setuid_ok else Setuid_failed 1)\<rparr>)
     demo_argv = main provisioned demo_argv"
proof -
  have h: "(\<lambda>u::uid_t. if u = 0 then Setuid_ok else Setuid_failed 1) 0 = kernel_setuid provisioned 0"
    by (simp add: provisioned_def)
  from setuid_request_is_for_root
    [of provisioned demo_argv "\<lambda>u. if u = 0 then Setuid_ok else Setuid_failed 1"] h
  show ?thesis
    by simp
qed

subsection \<open>No target path\<close>

text \<open>
  Claim C6. Invoked with its own name as the only argument, the program never ends in the
  replacement of the process image and never returns: every such run ends by \<open>abort\<close>
  after a line on standard error. When the identity change is granted, \<open>argv[1]\<close> is
  the null pointer that ends the vector; the request to execute it is refused with
  \<open>EFAULT\<close> and the line is \<open>execl: \<close> with the description of that error.
\<close>

theorem no_target_path_aborts:
  "snd (main w [name]) = Aborted \<and>
   stderr_text (trace (main w [name])) \<noteq> [] \<and>
   (kernel_setuid w 0 = Setuid_ok \<longrightarrow>
      main w [name] =
        (\<lparr>errno = EFAULT,
          events = [Req_setuid 0, Req_execve Null [],
                    Write stderr_fd (''execl: '' @ strerror w EFAULT @ newline)]\<rparr>,
         Aborted))"
proof (cases "kernel_setuid w 0")
  case (Setuid_failed e)
  from main_setuid_failed [OF this, of "[name]"] Setuid_failed show ?thesis
    by (simp add: trace_def)
next
  case Setuid_ok
  have "sys_execve w Null (argv_from [name] 1) = Exec_failed EFAULT"
    by (simp add: sys_execve_def)
  from main_exec_failed [OF Setuid_ok argv_index_1_single this] Setuid_ok show ?thesis
    by (simp add: trace_def argv_from_def)
qed

theorem no_target_path_aborts_witness:
  "snd (main provisioned bare_argv) = Aborted \<and>
   kernel_setuid provisioned 0 = Setuid_ok \<and>
   stderr_text (trace (main provisioned bare_argv)) = ''execl: Bad address'' @ newline"
proof -
  have h: "kernel_setuid provisioned 0 = Setuid_ok"
    by (simp add: provisioned_def)
  have s: "strerror provisioned EFAULT = ''Bad address''"
    by (simp add: provisioned_def strerror_linux_def EFAULT_def)
  from no_target_path_aborts [of provisioned "''setuid-sploit''"] h s show ?thesis
    by (simp add: bare_argv_def trace_def)
qed

subsection \<open>The sequence of requests\<close>

text \<open>
  Claim C7. The identity and replacement requests of a run are the request to change the
  user identity alone, or that request followed by one request to replace the process
  image. So a run makes at most two such requests, the identity change first, and makes
  neither twice. Whatever else a run does (the line on standard error) comes after them.
\<close>

theorem at_most_two_requests_in_order:
  "(requests (main w argv) = [Req_setuid 0] \<or>
    (\<exists>path args. requests (main w argv) = [Req_setuid 0, Req_execve path args])) \<and>
   length (filter is_setuid (trace (main w argv))) = 1 \<and>
   length (filter is_execve (trace (main w argv))) \<le> 1 \<and>
   trace (main w argv) = requests (main w argv) @ filter is_write (trace (main w argv))"
proof (cases rule: main_cases [where w = w and argv = argv])
  case (setuid_failed e)
  from main_setuid_failed [OF this, of argv] show ?thesis
    by (simp add: requests_def trace_def is_request_def)
next
  case argc_zero
  from main_argc_zero [OF argc_zero(1)] argc_zero(2) show ?thesis
    by (simp add: requests_def trace_def is_request_def)
next
  case (exec_failed path e)
  from main_exec_failed [OF this] show ?thesis
    by (simp add: requests_def trace_def is_request_def)
next
  case (replaced path)
  from main_replaced [OF this] show ?thesis
    by (simp add: requests_def trace_def is_request_def)
qed

theorem at_most_two_requests_in_order_witness:
  "requests (main provisioned demo_argv) =
     [Req_setuid 0, Req_execve (Str ''/bin/echo'') [''/bin/echo'', ''hello'']] \<and>
   length (filter is_setuid (trace (main provisioned demo_argv))) = 1 \<and>
   length (filter is_execve (trace (main provisioned demo_argv))) \<le> 1"
proof -
  have r: "requests (main provisioned demo_argv) =
      [Req_setuid 0, Req_execve (Str ''/bin/echo'') [''/bin/echo'', ''hello'']]"
    by (simp add: requests_def trace_def is_request_def main_def setuid_def execv_def
        sys_execve_def argv_index_def argv_from_def provisioned_def demo_argv_def proc0_def)
  from at_most_two_requests_in_order [of provisioned demo_argv] r show ?thesis
    by simp
qed

subsection \<open>Nothing else is touched\<close>

text \<open>
  Claim C8. All a run does is ask for the identity change, ask for the replacement of the
  process image, and write to standard error: it writes to no other descriptor, writes
  at most once, and only in a run that ends by \<open>abort\<close>; a run that ends in the
  replacement has written nothing. What a run does is determined by the argument vector,
  the kernel's replies to the requests the run itself makes, and the descriptions of
  errors: the program reads nothing else of the world.
\<close>

theorem only_requests_and_error_line:
  "(\<forall>ev \<in> set (trace (main w argv)).
      ev = Req_setuid 0 \<or> is_execve ev \<or> (\<exists>m. ev = Write stderr_fd m)) \<and>
   length (filter is_write (trace (main w argv))) \<le> 1 \<and>
   (snd (main w argv) = Replaced \<longrightarrow> filter is_write (trace (main w argv)) = []) \<and>
   (filter is_write (trace (main w argv)) \<noteq> [] \<longrightarrow> snd (main w argv) = Aborted) \<and>
   (kernel_setuid w' 0 = kernel_setuid w 0 \<longrightarrow>
    (\<forall>path. argv_index argv 1 = Some path \<longrightarrow>
       sys_execve w' path (argv_from argv 1) = sys_execve w path (argv_from argv 1)) \<longrightarrow>
    strerror w' = strerror w \<longrightarrow>
    main w' argv = main w argv)"
proof -
  have frame: "(\<forall>ev \<in> set (trace (main w argv)).
        ev = Req_setuid 0 \<or> is_execve ev \<or> (\<exists>m. ev = Write stderr_fd m)) \<and>
     length (filter is_write (trace (main w argv))) \<le> 1 \<and>
     (snd (main w argv) = Replaced \<longrightarrow> filter is_write (trace (main w argv)) = []) \<and>
     (filter is_write (trace (main w argv)) \<noteq> [] \<longrightarrow> snd (main w argv) = Aborted)"
  proof (cases rule: main_cases [where w = w and argv = argv])
    case (setuid_failed e)
    from main_setuid_failed [OF this, of argv] show ?thesis
      by (simp add: trace_def)
  next
    case argc_zero
    from main_argc_zero [OF argc_zero(1)] argc_zero(2) show ?thesis
      by (simp add: trace_def)
  next
    case (exec_failed path e)
    from main_exec_failed [OF this] show ?thesis
      by (simp add: trace_def)
  next
    case (replaced path)
    from main_replaced [OF this] show ?thesis
      by (simp add: trace_def)
  qed
  have reads: "kernel_setuid w' 0 = kernel_setuid w 0 \<longrightarrow>
    (\<forall>path. argv_index argv 1 = Some path \<longrightarrow>
       sys_execve w' path (argv_from argv 1) = sys_execve w path (argv_from argv 1)) \<longrightarrow>
    strerror w' = strerror w \<longrightarrow>
    main w' argv = main w argv"
    using main_same_replies [of w' w argv] by blast
  from frame reads show ?thesis
    by blast
qed

theorem only_requests_and_error_line_witness:
  "trace (main provisioned demo_argv) =
     [Req_setuid 0, Req_execve (Str ''/bin/echo'') [''/bin/echo'', ''hello'']] \<and>
   snd (main provisioned demo_argv) = Replaced \<and>
   filter is_write (trace (main provisioned demo_argv)) = [] \<and>
   filter is_write (trace (main provisioned missing_argv)) \<noteq> [] \<and>
   snd (main provisioned missing_argv) = Aborted \<and>
   main (provisioned\<lparr>kernel_setuid := (\<lambda>u. if u = 0 then Setuid_ok else Setuid_failed 1)\<rparr>)
     demo_argv = main provisioned demo_argv"
proof -
  let ?w' = "provisioned\<lparr>kernel_setuid := (\<lambda>u. if u = 0 then Setuid_ok else Setuid_failed 1)\<rparr>"
  have t: "main provisioned demo_argv =
      (\<lparr>errno = 0,
        events = [Req_setuid 0, Req_execve (Str ''/bin/echo'') [''/bin/echo'', ''hello'']]\<rparr>,
       Replaced)"
    by (simp add: main_def setuid_def execv_def sys_execve_def argv_index_def argv_from_def
        provisioned_def demo_argv_def proc0_def)
  have m: "filter is_write (trace (main provisioned missing_argv)) \<noteq> []"
    by (simp add: main_def setuid_def execv_def sys_execve_def perror_def abort_def
        argv_index_def argv_from_def provisioned_def missing_argv_def proc0_def trace_def)
  have su: "kernel_setuid ?w' 0 = kernel_setuid provisioned 0"
    by (simp add: provisioned_def)
  have ex: "\<forall>path. argv_index demo_argv 1 = Some path \<longrightarrow>
      sys_execve ?w' path (argv_from demo_argv 1) = sys_execve provisioned path (argv_from demo_argv 1)"
    by (simp add: sys_execve_other_setuid)
  have se: "strerror ?w' = strerror provisioned"
    by simp
  from only_requests_and_error_line [of provisioned demo_argv ?w']
    only_requests_and_error_line [of provisioned missing_argv provisioned] t m su ex se
  show ?thesis
    by (simp add: trace_def)
qed

subsection \<open>The argument vector and the privilege transition\<close>

text \<open>
  Claim C9. For any two argument vectors and the same world, the runs make the same
  request for an identity change (one request, for identity 0), and either both stop at the
  privilege transition or neither does: a run stops there exactly when the request was
  refused. When it was refused the two runs are the same altogether. On an argument
  vector that holds at least the program's own name, the request to replace the process
  image is made exactly when the identity change was granted.
\<close>

theorem argv_does_not_influence_transition:
  "filter is_setuid (trace (main w a)) = filter is_setuid (trace (main w b)) \<and>
   filter is_setuid (trace (main w a)) = [Req_setuid 0] \<and>
   stopped_at_transition (main w a) = stopped_at_transition (main w b) \<and>
   stopped_at_transition (main w a) = (kernel_setuid w 0 \<noteq> Setuid_ok) \<and>
   (kernel_setuid w 0 \<noteq> Setuid_ok \<longrightarrow> main w a = main w b) \<and>
   (a \<noteq> [] \<longrightarrow>
      (filter is_execve (trace (main w a)) \<noteq> []) = (kernel_setuid w 0 = Setuid_ok))"
proof -
  have req: "filter is_setuid (trace (main w a)) = [Req_setuid 0]"
    "filter is_setuid (trace (main w b)) = [Req_setuid 0]"
    using setuid_requested_once by blast+
  have stop: "stopped_at_transition (main w a) = (kernel_setuid w 0 \<noteq> Setuid_ok)"
    "stopped_at_transition (main w b) = (kernel_setuid w 0 \<noteq> Setuid_ok)"
    using stopped_at_transition_iff by blast+
  have same: "kernel_setuid w 0 \<noteq> Setuid_ok \<longrightarrow> main w a = main w b"
  proof
    assume "kernel_setuid w 0 \<noteq> Setuid_ok"
    then obtain e where "kernel_setuid w 0 = Setuid_failed e"
      by (cases "kernel_setuid w 0") simp_all
    from main_setuid_failed [OF this, of a] main_setuid_failed [OF this, of b]
    show "main w a = main w b"
      by simp
  qed
  have reach: "a \<noteq> [] \<longrightarrow>
      (filter is_execve (trace (main w a)) \<noteq> []) = (kernel_setuid w 0 = Setuid_ok)"
  proof (cases rule: main_cases [where w = w and argv = a])
    case (setuid_failed e)
    from main_setuid_failed [OF this, of a] setuid_failed show ?thesis
      by (simp add: trace_def)
  next
    case argc_zero
    then show ?thesis
      by simp
  next
    case (exec_failed path e)
    from main_exec_failed [OF this] exec_failed(1) show ?thesis
      by (simp add: trace_def)
  next
    case (replaced path)
    from main_replaced [OF this] replaced(1) show ?thesis
      by (simp add: trace_def)
  qed
  from req stop same reach show ?thesis
    by simp
qed

theorem argv_does_not_influence_transition_witness:
  "filter is_setuid (trace (main sandboxed demo_argv)) =
     filter is_setuid (trace (main sandboxed missing_argv)) \<and>
   kernel_setuid sandboxed 0 \<noteq> Setuid_ok \<and>
   stopped_at_transition (main sandboxed demo_argv) \<and>
   stopped_at_transition (main sandboxed missing_argv) \<and>
   main sandboxed demo_argv = main sandboxed missing_argv \<and>
   demo_argv \<noteq> [] \<and>
   filter is_execve (trace (main sandboxed demo_argv)) = []"
proof -
  have h: "kernel_setuid sandboxed 0 \<noteq> Setuid_ok"
    by (simp add: sandboxed_def)
  have ne: "demo_argv \<noteq> []"
    by (simp add: demo_argv_def)
  from argv_does_not_influence_transition [of sandboxed demo_argv missing_argv] h ne
  show ?thesis
    by blast
qed

subsection \<open>The labels of the two messages\<close>

text \<open>
  Claim C10. The line written when the identity change is refused is the label
  \<open>setuid\<close>, a colon and a blank, the system's description of the error, and a newline;
  the line written when the replacement is refused is the same with the label \<open>execl\<close>
  (the request being \<open>execv\<close>). Whatever the descriptions are, the two lines differ.
\<close>

theorem failure_messages_are_labelled:
  assumes "kernel_setuid w 0 = Setuid_failed e"
    and "kernel_setuid w' 0 = Setuid_ok"
    and "argv_index argv' 1 = Some path"
    and "sys_execve w' path (argv_from argv' 1) = Exec_failed e'"
  shows "stderr_text (trace (main w argv)) = ''setuid'' @ '': '' @ strerror w e @ newline \<and>
         stderr_text (trace (main w' argv')) = ''execl'' @ '': '' @ strerror w' e' @ newline \<and>
         stderr_text (trace (main w argv)) \<noteq> stderr_text (trace (main w' argv'))"
  using main_setuid_failed [OF assms(1), of argv] main_exec_failed [OF assms(2,3,4)]
  by (simp add: trace_def)

theorem failure_messages_are_labelled_witness:
  "kernel_setuid sandboxed 0 = Setuid_failed 1 \<and>
   kernel_setuid provisioned 0 = Setuid_ok \<and>
   argv_index missing_argv 1 = Some (Str ''/bin/missing'') \<and>
   sys_execve provisioned (Str ''/bin/missing'') (argv_from missing_argv 1) = Exec_failed 2 \<and>
   stderr_text (trace (main sandboxed demo_argv)) = ''setuid: Operation not permitted'' @ newline \<and>
   stderr_text (trace (main provisioned missing_argv)) =
     ''execl: No such file or directory'' @ newline"
proof -
  have f: "kernel_setuid sandboxed 0 = Setuid_failed 1"
    by (simp add: sandboxed_def)
  have h: "kernel_setuid provisioned 0 = Setuid_ok"
    by (simp add: provisioned_def)
  have p: "argv_index missing_argv 1 = Some (Str ''/bin/missing'')"
    by (simp add: argv_index_def missing_argv_def)
  have x: "sys_execve provisioned (Str ''/bin/missing'') (argv_from missing_argv 1) = Exec_failed 2"
    by (simp add: sys_execve_def provisioned_def)
  have s: "strerror sandboxed 1 = ''Operation not permitted''"
    "strerror provisioned 2 = ''No such file or directory''"
    by (simp_all add: sandboxed_def provisioned_def strerror_linux_def)
  from failure_messages_are_labelled [OF f h p x, of demo_argv] f h p x s show ?thesis
    by simp
qed

end
